theory Spec2Isabelle
  imports Complex_Main
begin

section \<open>Performance RNN model: conditioning expansion and configuration registry\<close>

text \<open>
  A shallow embedding of \<^verbatim>\<open>magenta/models/performance_rnn/performance_model.py\<close>:
  the two methods of \<^verbatim>\<open>PerformanceRnnModel\<close>, the constructor of
  \<^verbatim>\<open>PerformanceRnnConfig\<close> and the dictionary \<^verbatim>\<open>default_configs\<close>.
\<close>

subsection \<open>Python values and exceptions\<close>

text \<open>
  The conditioning arguments are untyped Python objects that the methods only compare
  with \<^verbatim>\<open>None\<close>, wrap in a tuple and repeat in a list. \<open>PyObj\<close> stands for any
  object the file does not look into (a float density, an array).
\<close>

datatype 'a pyval =
    PyNone
  | PyObj 'a
  | PyTuple "'a pyval list"
  | PyList "'a pyval list"

datatype pyerror = ValueError | KeyError | IndexError | OtherError string

text \<open>\<^verbatim>\<open>[x] * n\<close> for a Python int \<open>n\<close>: the list is empty when \<open>n \<le> 0\<close>.\<close>

definition list_times :: "'a pyval \<Rightarrow> int \<Rightarrow> 'a pyval" where
  "list_times x n = PyList (replicate (nat n) x)"

text \<open>\<^verbatim>\<open>xs[0]\<close> on a list: IndexError when the list is empty.\<close>

definition index0 :: "'r list \<Rightarrow> pyerror + 'r" where
  "index0 xs = (case xs of [] \<Rightarrow> Inl IndexError | x # _ \<Rightarrow> Inr x)"

subsection \<open>PerformanceRnnModel\<close>

text \<open>
  The base class \<^verbatim>\<open>events_rnn_model.EventSequenceRnnModel\<close> is not part of the file.
  Its two methods that the file calls, \<^verbatim>\<open>_generate_events\<close> and
  \<^verbatim>\<open>_evaluate_log_likelihood\<close>, are the fields of the record that stands for
  \<^verbatim>\<open>self\<close>; each may raise. A performance is the list of its events, \<open>'t\<close> is the
  type of the temperature and \<open>'r\<close> the type of a log likelihood.
\<close>

record ('e, 't, 'a, 'r) EventSequenceRnnModel =
  generate_events ::
    "int \<Rightarrow> 'e list \<Rightarrow> 't \<Rightarrow> int \<Rightarrow> int \<Rightarrow> int \<Rightarrow> 'a pyval \<Rightarrow> pyerror + 'e list"
  evaluate_log_likelihood ::
    "'e list list \<Rightarrow> 'a pyval \<Rightarrow> pyerror + 'r list"

text \<open>Lines 59 to 66: the value of \<^verbatim>\<open>control_events\<close> in \<^verbatim>\<open>generate_performance\<close>.\<close>

definition generate_performance_control_events ::
    "int \<Rightarrow> 'a pyval \<Rightarrow> 'a pyval \<Rightarrow> 'a pyval" where
  "generate_performance_control_events num_steps note_density pitch_histogram =
     (if note_density \<noteq> PyNone \<and> pitch_histogram \<noteq> PyNone then
        list_times (PyTuple [note_density, pitch_histogram]) num_steps
      else if note_density \<noteq> PyNone then
        list_times note_density num_steps
      else if pitch_histogram \<noteq> PyNone then
        list_times pitch_histogram num_steps
      else PyNone)"

text \<open>
  \<^verbatim>\<open>generate_performance\<close>. The keyword parameters are passed explicitly; a caller
  who omits \<^verbatim>\<open>note_density\<close> or \<^verbatim>\<open>pitch_histogram\<close> passes \<open>PyNone\<close>.
\<close>

definition generate_performance ::
    "('e, 't, 'a, 'r) EventSequenceRnnModel \<Rightarrow> int \<Rightarrow> 'e list \<Rightarrow> 't \<Rightarrow> int \<Rightarrow> int \<Rightarrow> int
      \<Rightarrow> 'a pyval \<Rightarrow> 'a pyval \<Rightarrow> pyerror + 'e list" where
  "generate_performance self num_steps primer_sequence temperature beam_size
      branch_factor steps_per_iteration note_density pitch_histogram =
     generate_events self num_steps primer_sequence temperature beam_size
       branch_factor steps_per_iteration
       (generate_performance_control_events num_steps note_density pitch_histogram)"

text \<open>Lines 90 to 97: the value of \<^verbatim>\<open>control_events\<close> in \<^verbatim>\<open>performance_log_likelihood\<close>.\<close>

definition performance_log_likelihood_control_events ::
    "'e list \<Rightarrow> 'a pyval \<Rightarrow> 'a pyval \<Rightarrow> 'a pyval" where
  "performance_log_likelihood_control_events sequence note_density pitch_histogram =
     (if note_density \<noteq> PyNone \<and> pitch_histogram \<noteq> PyNone then
        list_times (PyTuple [note_density, pitch_histogram]) (int (length sequence))
      else if note_density \<noteq> PyNone then
        list_times note_density (int (length sequence))
      else if pitch_histogram \<noteq> PyNone then
        list_times pitch_histogram (int (length sequence))
      else PyNone)"

text \<open>
  \<^verbatim>\<open>performance_log_likelihood\<close>: the evaluator is called on the list
  \<^verbatim>\<open>[sequence]\<close>, an exception of the evaluator propagates, and \<^verbatim>\<open>[0]\<close> reads
  the first result.
\<close>

definition performance_log_likelihood ::
    "('e, 't, 'a, 'r) EventSequenceRnnModel \<Rightarrow> 'e list \<Rightarrow> 'a pyval \<Rightarrow> 'a pyval
      \<Rightarrow> pyerror + 'r" where
  "performance_log_likelihood self sequence note_density pitch_histogram =
     (case evaluate_log_likelihood self [sequence]
             (performance_log_likelihood_control_events sequence note_density pitch_histogram) of
        Inl e \<Rightarrow> Inl e
      | Inr results \<Rightarrow> index0 results)"

subsection \<open>PerformanceRnnConfig\<close>

text \<open>
  The constructors of the collaborators are kept as terms: the generator details, the
  encoder-decoder topology and the hyperparameters. A float literal is the real number
  it is written as; the file stores and never computes with them. An argument of type
  \<open>option\<close> of an encoding is \<open>None\<close> when the call leaves the keyword out.
\<close>

record GeneratorDetails =
  id' :: string
  description :: string

datatype Encoding =
    PerformanceOneHotEncoding "int option"
  | NoteDensityOneHotEncoding "real list"

datatype EncoderDecoder =
    OneHotEventSequenceEncoderDecoder Encoding
  | PitchHistogramEncoderDecoder
  | MultipleEventSequenceEncoder "EncoderDecoder list"
  | ConditionalEventSequenceEncoderDecoder EncoderDecoder EncoderDecoder

record HParams =
  batch_size :: int
  rnn_layer_sizes :: "int list"
  dropout_keep_prob :: real
  clip_norm :: int
  learning_rate :: real

record PerformanceRnnConfig =
  details :: GeneratorDetails
  encoder_decoder :: EncoderDecoder
  hparams :: HParams
  num_velocity_bins :: int
  density_bin_ranges :: "real list option"
  density_window_size :: "real option"
  pitch_histogram_window_size :: "real option"

text \<open>
  The keyword arguments of a call of the constructor: \<open>None\<close> is a keyword the call
  leaves out, \<open>Some v\<close> a keyword passed with the value \<open>v\<close> (which may itself be
  Python's \<^verbatim>\<open>None\<close>, the inner \<open>None\<close>).
\<close>

record kwargs =
  kw_num_velocity_bins :: "int option"
  kw_density_bin_ranges :: "real list option option"
  kw_density_window_size :: "real option option"
  kw_pitch_histogram_window_size :: "real option option"

definition no_kwargs :: kwargs where
  "no_kwargs =
     \<lparr>kw_num_velocity_bins = None, kw_density_bin_ranges = None,
      kw_density_window_size = None, kw_pitch_histogram_window_size = None\<rparr>"

definition keyword_or :: "'v option \<Rightarrow> 'v \<Rightarrow> 'v" where
  "keyword_or passed dflt = (case passed of None \<Rightarrow> dflt | Some v \<Rightarrow> v)"

text \<open>
  Modelled from the spec: the constructor of the base class
  \<^verbatim>\<open>events_rnn_model.EventSequenceRnnConfig\<close>, which is not in the file; the
  configuration combines the details, the encoder-decoder and the hyperparameters it
  is given. The four other fields and their defaults are lines 118 to 126.
\<close>

definition PerformanceRnnConfig_init ::
    "GeneratorDetails \<Rightarrow> EncoderDecoder \<Rightarrow> HParams \<Rightarrow> kwargs \<Rightarrow> PerformanceRnnConfig" where
  "PerformanceRnnConfig_init details_arg encoder_decoder_arg hparams_arg kw =
     \<lparr>details = details_arg,
      encoder_decoder = encoder_decoder_arg,
      hparams = hparams_arg,
      num_velocity_bins = keyword_or (kw_num_velocity_bins kw) 0,
      density_bin_ranges = keyword_or (kw_density_bin_ranges kw) None,
      density_window_size = keyword_or (kw_density_window_size kw) (Some 3.0),
      pitch_histogram_window_size = keyword_or (kw_pitch_histogram_window_size kw) None\<rparr>"

subsection \<open>The registry\<close>

text \<open>
  \<^verbatim>\<open>default_configs\<close>, a dictionary literal: a map built by one update for each
  entry, in the order of the source.
\<close>

definition default_configs :: "string \<rightharpoonup> PerformanceRnnConfig" where
  "default_configs =
     [''performance'' \<mapsto>
        PerformanceRnnConfig_init
          \<lparr>id' = ''performance'', description = ''Performance RNN''\<rparr>
          (OneHotEventSequenceEncoderDecoder (PerformanceOneHotEncoding None))
          \<lparr>batch_size = 64, rnn_layer_sizes = [512, 512, 512], dropout_keep_prob = 1.0,
           clip_norm = 3, learning_rate = 0.001\<rparr>
          no_kwargs,
      ''performance_with_dynamics'' \<mapsto>
        PerformanceRnnConfig_init
          \<lparr>id' = ''performance_with_dynamics'',
           description = ''Performance RNN with dynamics''\<rparr>
          (OneHotEventSequenceEncoderDecoder (PerformanceOneHotEncoding (Some 32)))
          \<lparr>batch_size = 64, rnn_layer_sizes = [512, 512, 512], dropout_keep_prob = 1.0,
           clip_norm = 3, learning_rate = 0.001\<rparr>
          (no_kwargs\<lparr>kw_num_velocity_bins := Some 32\<rparr>),
      ''density_conditioned_performance_with_dynamics'' \<mapsto>
        PerformanceRnnConfig_init
          \<lparr>id' = ''density_conditioned_performance_with_dynamics'',
           description = ''Note-density-conditioned Performance RNN + dynamics''\<rparr>
          (ConditionalEventSequenceEncoderDecoder
             (OneHotEventSequenceEncoderDecoder
                (NoteDensityOneHotEncoding [1.0, 2.0, 4.0, 8.0, 16.0, 32.0, 64.0]))
             (OneHotEventSequenceEncoderDecoder (PerformanceOneHotEncoding (Some 32))))
          \<lparr>batch_size = 64, rnn_layer_sizes = [512, 512, 512], dropout_keep_prob = 1.0,
           clip_norm = 3, learning_rate = 0.001\<rparr>
          (no_kwargs\<lparr>kw_num_velocity_bins := Some 32,
             kw_density_bin_ranges := Some (Some [1.0, 2.0, 4.0, 8.0, 16.0, 32.0, 64.0]),
             kw_density_window_size := Some (Some 3.0)\<rparr>),
      ''pitch_conditioned_performance_with_dynamics'' \<mapsto>
        PerformanceRnnConfig_init
          \<lparr>id' = ''pitch_conditioned_performance_with_dynamics'',
           description = ''Pitch-histogram-conditioned Performance RNN''\<rparr>
          (ConditionalEventSequenceEncoderDecoder
             PitchHistogramEncoderDecoder
             (OneHotEventSequenceEncoderDecoder (PerformanceOneHotEncoding (Some 32))))
          \<lparr>batch_size = 64, rnn_layer_sizes = [512, 512, 512], dropout_keep_prob = 1.0,
           clip_norm = 3, learning_rate = 0.001\<rparr>
          (no_kwargs\<lparr>kw_num_velocity_bins := Some 32,
             kw_pitch_histogram_window_size := Some (Some 5.0)\<rparr>),
      ''multiconditioned_performance_with_dynamics'' \<mapsto>
        PerformanceRnnConfig_init
          \<lparr>id' = ''multiconditioned_performance_with_dynamics'',
           description = ''Density- and pitch-conditioned Performance RNN''\<rparr>
          (ConditionalEventSequenceEncoderDecoder
             (MultipleEventSequenceEncoder
                [OneHotEventSequenceEncoderDecoder
                   (NoteDensityOneHotEncoding [1.0, 2.0, 4.0, 8.0, 16.0, 32.0, 64.0]),
                 PitchHistogramEncoderDecoder])
             (OneHotEventSequenceEncoderDecoder (PerformanceOneHotEncoding (Some 32))))
          \<lparr>batch_size = 64, rnn_layer_sizes = [512, 512, 512], dropout_keep_prob = 1.0,
           clip_norm = 3, learning_rate = 0.001\<rparr>
          (no_kwargs\<lparr>kw_num_velocity_bins := Some 32,
             kw_density_bin_ranges := Some (Some [1.0, 2.0, 4.0, 8.0, 16.0, 32.0, 64.0]),
             kw_density_window_size := Some (Some 3.0),
             kw_pitch_histogram_window_size := Some (Some 5.0)\<rparr>)]"

text \<open>\<^verbatim>\<open>d[key]\<close> on a dictionary: KeyError when the key is missing.\<close>

definition getitem :: "('k \<rightharpoonup> 'v) \<Rightarrow> 'k \<Rightarrow> pyerror + 'v" where
  "getitem d key = (case d key of None \<Rightarrow> Inl KeyError | Some v \<Rightarrow> Inr v)"

subsection \<open>Concrete collaborators\<close>

text \<open>
  Three instances of the base class on which the methods can be evaluated: the first
  returns the primer unchanged and scores every sequence of a batch with minus its
  length, one score for each sequence; the second raises in both methods; the third
  returns the primer and gives, as the score of each sequence of the batch, the
  control argument it was called with.
\<close>

definition echo_model :: "(nat, real, real, int) EventSequenceRnnModel" where
  "echo_model =
     \<lparr>generate_events =
        (\<lambda>num_steps primer temperature beam_size branch_factor steps control_events.
           Inr primer),
      evaluate_log_likelihood =
        (\<lambda>batch control_events. Inr (map (\<lambda>s. - int (length s)) batch))\<rparr>"

definition raising_model :: "(nat, real, real, int) EventSequenceRnnModel" where
  "raising_model =
     \<lparr>generate_events =
        (\<lambda>num_steps primer temperature beam_size branch_factor steps control_events.
           Inl (OtherError ''generator'')),
      evaluate_log_likelihood =
        (\<lambda>batch control_events. Inl (OtherError ''evaluator''))\<rparr>"

definition recording_model :: "(nat, real, real, real pyval) EventSequenceRnnModel" where
  "recording_model =
     \<lparr>generate_events =
        (\<lambda>num_steps primer temperature beam_size branch_factor steps control_events.
           Inr primer),
      evaluate_log_likelihood =
        (\<lambda>batch control_events. Inr (map (\<lambda>s. control_events) batch))\<rparr>"

section \<open>Properties\<close>

lemmas config_defs =
  default_configs_def PerformanceRnnConfig_init_def no_kwargs_def keyword_or_def

lemmas control_defs =
  generate_performance_control_events_def performance_log_likelihood_control_events_def
  list_times_def

subsection \<open>The conditioning expansion\<close>

text \<open>
  What the two methods do when both \<^verbatim>\<open>note_density\<close> and
  \<^verbatim>\<open>pitch_histogram\<close> are given: the first branch of each pairs them, and the
  collaborator is called with the control sequence of pairs.
\<close>

lemma both_given_delegates:
  assumes "note_density \<noteq> PyNone" and "pitch_histogram \<noteq> PyNone"
  shows "generate_performance self num_steps primer temperature beam_size branch_factor
             steps_per_iteration note_density pitch_histogram
           = generate_events self num_steps primer temperature beam_size branch_factor
               steps_per_iteration
               (PyList (replicate (nat num_steps) (PyTuple [note_density, pitch_histogram])))
       \<and> performance_log_likelihood self sequence note_density pitch_histogram
           = (case evaluate_log_likelihood self [sequence]
                     (PyList (replicate (length sequence)
                        (PyTuple [note_density, pitch_histogram]))) of
                Inl e \<Rightarrow> Inl e
              | Inr results \<Rightarrow> index0 results)"
  using assms
  by (simp add: control_defs generate_performance_def performance_log_likelihood_def)

text \<open>
  C1. The docstrings of both methods say that a ValueError is raised when both
  \<^verbatim>\<open>note_density\<close> and \<^verbatim>\<open>pitch_histogram\<close> are given, and so does the
  claim. The code does not: called with both values on a primer or sequence of two
  events, with collaborators that succeed, \<^verbatim>\<open>generate_performance\<close> returns the
  generator's result and \<^verbatim>\<open>performance_log_likelihood\<close> the evaluator's score;
  neither is a ValueError.
\<close>

theorem both_given_no_value_error:
  "generate_performance echo_model 2 [60, 64] 1 1 1 1
       (PyObj 2) (PyList [PyObj 1, PyObj 0]) = Inr [60, 64]
   \<and> generate_performance echo_model 2 [60, 64] 1 1 1 1
       (PyObj 2) (PyList [PyObj 1, PyObj 0]) \<noteq> Inl ValueError
   \<and> performance_log_likelihood echo_model [60, 64]
       (PyObj 2) (PyList [PyObj 1, PyObj 0]) = Inr (- 2)
   \<and> performance_log_likelihood echo_model [60, 64]
       (PyObj 2) (PyList [PyObj 1, PyObj 0]) \<noteq> Inl ValueError"
  by (simp add: generate_performance_def performance_log_likelihood_def echo_model_def
      index0_def)

text \<open>
  C3. For a positive number of steps \<open>N\<close> and both values given, the control sequence
  of \<^verbatim>\<open>generate_performance\<close> called with \<open>N\<close> steps, and that of
  \<^verbatim>\<open>performance_log_likelihood\<close> called on a sequence of length \<open>N\<close>, is a list
  of length \<open>N\<close> whose every element is the tuple of the two values.
\<close>

theorem control_events_both:
  assumes "0 < N" and "d \<noteq> PyNone" and "h \<noteq> PyNone"
  shows "(\<exists>xs. generate_performance_control_events N d h = PyList xs
            \<and> int (length xs) = N \<and> (\<forall>x\<in>set xs. x = PyTuple [d, h]))
       \<and> (\<forall>s :: 'e list. int (length s) = N \<longrightarrow>
            (\<exists>xs. performance_log_likelihood_control_events s d h = PyList xs
               \<and> int (length xs) = N \<and> (\<forall>x\<in>set xs. x = PyTuple [d, h])))"
  using assms by (simp add: control_defs)

theorem control_events_both_witness:
  "(0::int) < 3 \<and> PyObj (2::real) \<noteq> PyNone \<and> PyList [PyObj (1::real), PyObj 0] \<noteq> PyNone
   \<and> generate_performance_control_events 3 (PyObj (2::real)) (PyList [PyObj 1, PyObj 0])
       = PyList [PyTuple [PyObj 2, PyList [PyObj 1, PyObj 0]],
                 PyTuple [PyObj 2, PyList [PyObj 1, PyObj 0]],
                 PyTuple [PyObj 2, PyList [PyObj 1, PyObj 0]]]
   \<and> int (length [10, 20, 30 :: nat]) = 3
   \<and> performance_log_likelihood_control_events [10, 20, 30 :: nat]
         (PyObj (2::real)) (PyList [PyObj 1, PyObj 0])
       = PyList [PyTuple [PyObj 2, PyList [PyObj 1, PyObj 0]],
                 PyTuple [PyObj 2, PyList [PyObj 1, PyObj 0]],
                 PyTuple [PyObj 2, PyList [PyObj 1, PyObj 0]]]"
  using control_events_both [of 3 "PyObj (2::real)" "PyList [PyObj 1, PyObj 0]",
      where ?'e = nat]
  by (simp add: control_defs numeral_3_eq_3)

text \<open>
  C4. For a positive number of steps \<open>N\<close> and exactly one of the two values given
  (here \<open>v\<close>, the other being \<open>PyNone\<close>), the control sequence of either method is a
  list of length \<open>N\<close> whose every element is \<open>v\<close>.
\<close>

theorem control_events_single:
  assumes "0 < N" and "v \<noteq> PyNone"
  shows "(\<exists>xs. generate_performance_control_events N v PyNone = PyList xs
            \<and> int (length xs) = N \<and> (\<forall>x\<in>set xs. x = v))
       \<and> (\<exists>xs. generate_performance_control_events N PyNone v = PyList xs
            \<and> int (length xs) = N \<and> (\<forall>x\<in>set xs. x = v))
       \<and> (\<forall>s :: 'e list. int (length s) = N \<longrightarrow>
            (\<exists>xs. performance_log_likelihood_control_events s v PyNone = PyList xs
               \<and> int (length xs) = N \<and> (\<forall>x\<in>set xs. x = v))
          \<and> (\<exists>xs. performance_log_likelihood_control_events s PyNone v = PyList xs
               \<and> int (length xs) = N \<and> (\<forall>x\<in>set xs. x = v)))"
  using assms by (simp add: control_defs)

theorem control_events_single_witness:
  "(0::int) < 2 \<and> PyObj (4::real) \<noteq> PyNone
   \<and> generate_performance_control_events 2 (PyObj (4::real)) PyNone
       = PyList [PyObj 4, PyObj 4]
   \<and> generate_performance_control_events 2 PyNone (PyObj (4::real))
       = PyList [PyObj 4, PyObj 4]
   \<and> int (length [60, 64 :: nat]) = 2
   \<and> performance_log_likelihood_control_events [60, 64 :: nat] (PyObj (4::real)) PyNone
       = PyList [PyObj 4, PyObj 4]
   \<and> performance_log_likelihood_control_events [60, 64 :: nat] PyNone (PyObj (4::real))
       = PyList [PyObj 4, PyObj 4]"
  using control_events_single [of 2 "PyObj (4::real)", where ?'e = nat]
  by (simp add: control_defs numeral_2_eq_2)

text \<open>
  C5. With neither value given the control sequence is \<open>PyNone\<close> for every number of
  steps and every sequence; \<open>PyNone\<close> is not the empty list; and \<open>PyNone\<close> is the
  control argument that the generator and the evaluator are called with.
\<close>

theorem control_events_absent:
  "generate_performance_control_events N PyNone PyNone = (PyNone :: 'a pyval)
   \<and> performance_log_likelihood_control_events (s :: 'e list) PyNone PyNone
       = (PyNone :: 'a pyval)
   \<and> (PyNone :: 'a pyval) \<noteq> PyList []
   \<and> generate_performance self N primer temperature beam_size branch_factor
         steps_per_iteration PyNone PyNone
       = generate_events self N primer temperature beam_size branch_factor
           steps_per_iteration PyNone
   \<and> performance_log_likelihood self s PyNone PyNone
       = (case evaluate_log_likelihood self [s] PyNone of
            Inl e \<Rightarrow> Inl e
          | Inr results \<Rightarrow> index0 results)"
  by (simp add: control_defs generate_performance_def performance_log_likelihood_def)

text \<open>
  C9. On a sequence whose length is \<open>num_steps\<close>, the control sequence built in
  \<^verbatim>\<open>performance_log_likelihood\<close> is the one built in
  \<^verbatim>\<open>generate_performance\<close> for \<open>num_steps\<close>, for all conditioning values.
\<close>

theorem control_events_agree:
  "int (length sequence) = num_steps \<Longrightarrow>
   performance_log_likelihood_control_events sequence note_density pitch_histogram
     = generate_performance_control_events num_steps note_density pitch_histogram"
  by (simp add: generate_performance_control_events_def
      performance_log_likelihood_control_events_def)

theorem control_events_agree_witness:
  "int (length [60, 64, 67 :: nat]) = 3
   \<and> performance_log_likelihood_control_events [60, 64, 67 :: nat]
         (PyObj (2::real)) PyNone
       = generate_performance_control_events 3 (PyObj (2::real)) PyNone
   \<and> generate_performance_control_events 3 (PyObj (2::real)) PyNone
       = PyList [PyObj 2, PyObj 2, PyObj 2]"
  using control_events_agree [of "[60, 64, 67 :: nat]" 3 "PyObj (2::real)" PyNone]
  by (simp add: control_defs numeral_3_eq_3)

subsection \<open>The call of the evaluator\<close>

text \<open>
  C6. \<^verbatim>\<open>performance_log_likelihood\<close> calls the evaluator on the one-element
  batch \<open>[sequence]\<close> together with the control argument: \<open>len(sequence)\<close> copies of
  the pair when both values are given, of the one value given when only one is, and
  \<open>PyNone\<close> when neither is. When the evaluator answers that call with its one
  result \<open>[r]\<close> the method returns \<open>r\<close>, when it raises the exception propagates,
  and two models whose evaluators agree on that one call give the same outcome:
  nothing else of the evaluator is consulted.
\<close>

theorem log_likelihood_single_batch:
  assumes "control_events =
     (if note_density \<noteq> PyNone \<and> pitch_histogram \<noteq> PyNone then
        PyList (replicate (length sequence) (PyTuple [note_density, pitch_histogram]))
      else if note_density \<noteq> PyNone then
        PyList (replicate (length sequence) note_density)
      else if pitch_histogram \<noteq> PyNone then
        PyList (replicate (length sequence) pitch_histogram)
      else PyNone)"
  shows "(evaluate_log_likelihood self [sequence] control_events = Inr [r]
      \<longrightarrow> performance_log_likelihood self sequence note_density pitch_histogram = Inr r)
   \<and> (evaluate_log_likelihood self [sequence] control_events = Inl e
      \<longrightarrow> performance_log_likelihood self sequence note_density pitch_histogram = Inl e)
   \<and> (evaluate_log_likelihood other [sequence] control_events
        = evaluate_log_likelihood self [sequence] control_events
      \<longrightarrow> performance_log_likelihood other sequence note_density pitch_histogram
          = performance_log_likelihood self sequence note_density pitch_histogram)"
  using assms by (simp add: performance_log_likelihood_def control_defs index0_def)

theorem log_likelihood_single_batch_witness:
  "evaluate_log_likelihood recording_model [[60, 64, 67]]
       (PyList [PyObj 2, PyObj 2, PyObj 2])
     = Inr [PyList [PyObj 2, PyObj 2, PyObj 2]]
   \<and> performance_log_likelihood recording_model [60, 64, 67] (PyObj 2) PyNone
     = Inr (PyList [PyObj 2, PyObj 2, PyObj 2])
   \<and> evaluate_log_likelihood recording_model [[60, 64, 67]] PyNone = Inr [PyNone]
   \<and> performance_log_likelihood recording_model [60, 64, 67] PyNone PyNone = Inr PyNone
   \<and> evaluate_log_likelihood raising_model [[60, 64, 67]]
       (PyList [PyObj 2, PyObj 2, PyObj 2])
     = Inl (OtherError ''evaluator'')
   \<and> performance_log_likelihood raising_model [60, 64, 67] PyNone (PyObj 2)
     = Inl (OtherError ''evaluator'')
   \<and> evaluate_log_likelihood
       (recording_model\<lparr>generate_events := generate_events raising_model\<rparr>)
       [[60, 64, 67]] (PyList [PyObj 2, PyObj 2, PyObj 2])
     = evaluate_log_likelihood recording_model [[60, 64, 67]]
         (PyList [PyObj 2, PyObj 2, PyObj 2])
   \<and> performance_log_likelihood
       (recording_model\<lparr>generate_events := generate_events raising_model\<rparr>)
       [60, 64, 67] (PyObj 2) PyNone
     = performance_log_likelihood recording_model [60, 64, 67] (PyObj 2) PyNone"
proof -
  have a: "evaluate_log_likelihood recording_model [[60, 64, 67]]
       (PyList [PyObj 2, PyObj 2, PyObj 2])
     = Inr [PyList [PyObj 2, PyObj 2, PyObj 2]]"
    by (simp add: recording_model_def)
  have a': "evaluate_log_likelihood recording_model [[60, 64, 67]] PyNone = Inr [PyNone]"
    by (simp add: recording_model_def)
  have b: "evaluate_log_likelihood raising_model [[60, 64, 67]]
       (PyList [PyObj 2, PyObj 2, PyObj 2])
     = Inl (OtherError ''evaluator'')"
    by (simp add: raising_model_def)
  have c: "evaluate_log_likelihood
       (recording_model\<lparr>generate_events := generate_events raising_model\<rparr>)
       [[60, 64, 67]] (PyList [PyObj 2, PyObj 2, PyObj 2])
     = evaluate_log_likelihood recording_model [[60, 64, 67]]
         (PyList [PyObj 2, PyObj 2, PyObj 2])"
    by simp
  have k1: "PyList [PyObj (2::real), PyObj 2, PyObj 2] =
     (if PyObj (2::real) \<noteq> PyNone \<and> (PyNone :: real pyval) \<noteq> PyNone then
        PyList (replicate (length [60 :: nat, 64, 67]) (PyTuple [PyObj 2, PyNone]))
      else if PyObj (2::real) \<noteq> PyNone then
        PyList (replicate (length [60 :: nat, 64, 67]) (PyObj 2))
      else if (PyNone :: real pyval) \<noteq> PyNone then
        PyList (replicate (length [60 :: nat, 64, 67]) PyNone)
      else PyNone)"
    by (simp add: numeral_3_eq_3)
  have k2: "(PyNone :: real pyval) =
     (if (PyNone :: real pyval) \<noteq> PyNone \<and> (PyNone :: real pyval) \<noteq> PyNone then
        PyList (replicate (length [60 :: nat, 64, 67]) (PyTuple [PyNone, PyNone]))
      else if (PyNone :: real pyval) \<noteq> PyNone then
        PyList (replicate (length [60 :: nat, 64, 67]) PyNone)
      else if (PyNone :: real pyval) \<noteq> PyNone then
        PyList (replicate (length [60 :: nat, 64, 67]) PyNone)
      else PyNone)"
    by simp
  have k3: "PyList [PyObj (2::real), PyObj 2, PyObj 2] =
     (if (PyNone :: real pyval) \<noteq> PyNone \<and> PyObj (2::real) \<noteq> PyNone then
        PyList (replicate (length [60 :: nat, 64, 67]) (PyTuple [PyNone, PyObj 2]))
      else if (PyNone :: real pyval) \<noteq> PyNone then
        PyList (replicate (length [60 :: nat, 64, 67]) PyNone)
      else if PyObj (2::real) \<noteq> PyNone then
        PyList (replicate (length [60 :: nat, 64, 67]) (PyObj 2))
      else PyNone)"
    by (simp add: numeral_3_eq_3)
  note t1 = log_likelihood_single_batch [OF k1, where self = recording_model
      and r = "PyList [PyObj 2, PyObj 2, PyObj 2]" and e = IndexError
      and other = "recording_model\<lparr>generate_events := generate_events raising_model\<rparr>"]
  note t2 = log_likelihood_single_batch [OF k2, where self = recording_model
      and r = PyNone and e = IndexError and other = recording_model]
  note t3 = log_likelihood_single_batch [OF k3, where self = raising_model
      and r = 0 and e = "OtherError ''evaluator''" and other = raising_model]
  from a a' b c t1 t2 t3 show ?thesis by simp
qed

subsection \<open>The constructor and the registry\<close>

text \<open>
  C2. The registry has exactly the five documented keys; the entry
  \<open>performance\<close> has no velocity bins, no density bin ranges and no pitch histogram
  window; the entry \<open>multiconditioned_performance_with_dynamics\<close> has 32 velocity
  bins, the density bin ranges 1, 2, 4, 8, 16, 32, 64 and a pitch histogram window of 5.
\<close>

theorem registry_entries:
  "dom default_configs =
     {''performance'', ''performance_with_dynamics'',
      ''density_conditioned_performance_with_dynamics'',
      ''pitch_conditioned_performance_with_dynamics'',
      ''multiconditioned_performance_with_dynamics''}
   \<and> (\<exists>c. default_configs ''performance'' = Some c
          \<and> num_velocity_bins c = 0
          \<and> density_bin_ranges c = None
          \<and> pitch_histogram_window_size c = None)
   \<and> (\<exists>c. default_configs ''multiconditioned_performance_with_dynamics'' = Some c
          \<and> num_velocity_bins c = 32
          \<and> density_bin_ranges c = Some [1.0, 2.0, 4.0, 8.0, 16.0, 32.0, 64.0]
          \<and> pitch_histogram_window_size c = Some 5.0)"
proof (intro conjI)
  show "dom default_configs =
     {''performance'', ''performance_with_dynamics'',
      ''density_conditioned_performance_with_dynamics'',
      ''pitch_conditioned_performance_with_dynamics'',
      ''multiconditioned_performance_with_dynamics''}"
    unfolding default_configs_def by (simp add: insert_commute)
  show "\<exists>c. default_configs ''performance'' = Some c
          \<and> num_velocity_bins c = 0
          \<and> density_bin_ranges c = None
          \<and> pitch_histogram_window_size c = None"
    by (simp add: config_defs)
  show "\<exists>c. default_configs ''multiconditioned_performance_with_dynamics'' = Some c
          \<and> num_velocity_bins c = 32
          \<and> density_bin_ranges c = Some [1.0, 2.0, 4.0, 8.0, 16.0, 32.0, 64.0]
          \<and> pitch_histogram_window_size c = Some 5.0"
    by (simp add: config_defs)
qed

text \<open>
  C7, as the code has it. Each keyword of the constructor has its own default, used
  whenever a call leaves that keyword out, whatever the other keywords are:
  \<^verbatim>\<open>num_velocity_bins\<close> is then 0, \<^verbatim>\<open>density_bin_ranges\<close> unset,
  \<^verbatim>\<open>pitch_histogram_window_size\<close> unset, and \<^verbatim>\<open>density_window_size\<close> 3.0,
  whether or not density bin ranges are given. A keyword that is passed is stored.
\<close>

theorem constructor_defaults:
  "(kw_num_velocity_bins kw = None
      \<longrightarrow> num_velocity_bins (PerformanceRnnConfig_init d e h kw) = 0)
   \<and> (kw_density_bin_ranges kw = None
      \<longrightarrow> density_bin_ranges (PerformanceRnnConfig_init d e h kw) = None)
   \<and> (kw_pitch_histogram_window_size kw = None
      \<longrightarrow> pitch_histogram_window_size (PerformanceRnnConfig_init d e h kw) = None)
   \<and> (kw_density_window_size kw = None
      \<longrightarrow> density_window_size (PerformanceRnnConfig_init d e h kw) = Some 3.0)
   \<and> (kw_num_velocity_bins kw = Some n
      \<longrightarrow> num_velocity_bins (PerformanceRnnConfig_init d e h kw) = n)
   \<and> (kw_density_bin_ranges kw = Some r
      \<longrightarrow> density_bin_ranges (PerformanceRnnConfig_init d e h kw) = r)
   \<and> (kw_pitch_histogram_window_size kw = Some p
      \<longrightarrow> pitch_histogram_window_size (PerformanceRnnConfig_init d e h kw) = p)
   \<and> (kw_density_window_size kw = Some w
      \<longrightarrow> density_window_size (PerformanceRnnConfig_init d e h kw) = w)"
  by (simp add: PerformanceRnnConfig_init_def keyword_or_def)

theorem constructor_defaults_witness:
  "kw_num_velocity_bins (no_kwargs\<lparr>kw_num_velocity_bins := Some 32\<rparr>) = Some 32
   \<and> kw_density_bin_ranges (no_kwargs\<lparr>kw_num_velocity_bins := Some 32\<rparr>) = None
   \<and> kw_pitch_histogram_window_size (no_kwargs\<lparr>kw_num_velocity_bins := Some 32\<rparr>) = None
   \<and> kw_density_window_size (no_kwargs\<lparr>kw_num_velocity_bins := Some 32\<rparr>) = None
   \<and> PerformanceRnnConfig_init
       \<lparr>id' = ''performance_with_dynamics'',
        description = ''Performance RNN with dynamics''\<rparr>
       (OneHotEventSequenceEncoderDecoder (PerformanceOneHotEncoding (Some 32)))
       \<lparr>batch_size = 64, rnn_layer_sizes = [512, 512, 512], dropout_keep_prob = 1.0,
        clip_norm = 3, learning_rate = 0.001\<rparr>
       (no_kwargs\<lparr>kw_num_velocity_bins := Some 32\<rparr>)
     = \<lparr>details = \<lparr>id' = ''performance_with_dynamics'',
          description = ''Performance RNN with dynamics''\<rparr>,
        encoder_decoder =
          OneHotEventSequenceEncoderDecoder (PerformanceOneHotEncoding (Some 32)),
        hparams = \<lparr>batch_size = 64, rnn_layer_sizes = [512, 512, 512],
          dropout_keep_prob = 1.0, clip_norm = 3, learning_rate = 0.001\<rparr>,
        num_velocity_bins = 32, density_bin_ranges = None,
        density_window_size = Some 3.0, pitch_histogram_window_size = None\<rparr>
   \<and> kw_num_velocity_bins
       (no_kwargs\<lparr>kw_density_bin_ranges := Some (Some [1.0, 2.0]),
          kw_density_window_size := Some (Some 2.0),
          kw_pitch_histogram_window_size := Some (Some 5.0)\<rparr>) = None
   \<and> PerformanceRnnConfig_init
       \<lparr>id' = ''performance'', description = ''Performance RNN''\<rparr>
       (OneHotEventSequenceEncoderDecoder (PerformanceOneHotEncoding None))
       \<lparr>batch_size = 64, rnn_layer_sizes = [512, 512, 512], dropout_keep_prob = 1.0,
        clip_norm = 3, learning_rate = 0.001\<rparr>
       (no_kwargs\<lparr>kw_density_bin_ranges := Some (Some [1.0, 2.0]),
          kw_density_window_size := Some (Some 2.0),
          kw_pitch_histogram_window_size := Some (Some 5.0)\<rparr>)
     = \<lparr>details = \<lparr>id' = ''performance'', description = ''Performance RNN''\<rparr>,
        encoder_decoder =
          OneHotEventSequenceEncoderDecoder (PerformanceOneHotEncoding None),
        hparams = \<lparr>batch_size = 64, rnn_layer_sizes = [512, 512, 512],
          dropout_keep_prob = 1.0, clip_norm = 3, learning_rate = 0.001\<rparr>,
        num_velocity_bins = 0, density_bin_ranges = Some [1.0, 2.0],
        density_window_size = Some 2.0, pitch_histogram_window_size = Some 5.0\<rparr>"
  using
    constructor_defaults [where kw = "no_kwargs\<lparr>kw_num_velocity_bins := Some 32\<rparr>"
      and n = 32 and r = None and p = None and w = None
      and d = "\<lparr>id' = ''performance_with_dynamics'',
        description = ''Performance RNN with dynamics''\<rparr>"
      and e = "OneHotEventSequenceEncoderDecoder (PerformanceOneHotEncoding (Some 32))"
      and h = "\<lparr>batch_size = 64, rnn_layer_sizes = [512, 512, 512],
        dropout_keep_prob = 1.0, clip_norm = 3, learning_rate = 0.001\<rparr>"]
    constructor_defaults [where kw = "no_kwargs\<lparr>kw_density_bin_ranges := Some (Some [1.0, 2.0]),
          kw_density_window_size := Some (Some 2.0),
          kw_pitch_histogram_window_size := Some (Some 5.0)\<rparr>"
      and n = 0 and r = "Some [1.0, 2.0]" and p = "Some 5.0" and w = "Some 2.0"
      and d = "\<lparr>id' = ''performance'', description = ''Performance RNN''\<rparr>"
      and e = "OneHotEventSequenceEncoderDecoder (PerformanceOneHotEncoding None)"
      and h = "\<lparr>batch_size = 64, rnn_layer_sizes = [512, 512, 512],
        dropout_keep_prob = 1.0, clip_norm = 3, learning_rate = 0.001\<rparr>"]
  by (simp add: PerformanceRnnConfig_init_def no_kwargs_def keyword_or_def)

text \<open>
  C7 as stated fails in its last part: the configuration constructed as the entry
  \<open>performance\<close> is, with no keyword argument, has density conditioning off and its
  density window size set.
\<close>

theorem density_window_size_set_by_default:
  "density_bin_ranges
     (PerformanceRnnConfig_init
        \<lparr>id' = ''performance'', description = ''Performance RNN''\<rparr>
        (OneHotEventSequenceEncoderDecoder (PerformanceOneHotEncoding None))
        \<lparr>batch_size = 64, rnn_layer_sizes = [512, 512, 512], dropout_keep_prob = 1.0,
         clip_norm = 3, learning_rate = 0.001\<rparr>
        no_kwargs) = None
   \<and> density_window_size
     (PerformanceRnnConfig_init
        \<lparr>id' = ''performance'', description = ''Performance RNN''\<rparr>
        (OneHotEventSequenceEncoderDecoder (PerformanceOneHotEncoding None))
        \<lparr>batch_size = 64, rnn_layer_sizes = [512, 512, 512], dropout_keep_prob = 1.0,
         clip_norm = 3, learning_rate = 0.001\<rparr>
        no_kwargs) = Some 3.0
   \<and> density_window_size
     (PerformanceRnnConfig_init
        \<lparr>id' = ''performance'', description = ''Performance RNN''\<rparr>
        (OneHotEventSequenceEncoderDecoder (PerformanceOneHotEncoding None))
        \<lparr>batch_size = 64, rnn_layer_sizes = [512, 512, 512], dropout_keep_prob = 1.0,
         clip_norm = 3, learning_rate = 0.001\<rparr>
        no_kwargs) \<noteq> None"
  by (simp add: PerformanceRnnConfig_init_def no_kwargs_def keyword_or_def)

text \<open>
  C8. Subscripting the registry with a key that is none of the five registered names
  raises KeyError; no configuration is returned.
\<close>

theorem unregistered_key_error:
  assumes "key \<notin> {''performance'', ''performance_with_dynamics'',
      ''density_conditioned_performance_with_dynamics'',
      ''pitch_conditioned_performance_with_dynamics'',
      ''multiconditioned_performance_with_dynamics''}"
  shows "getitem default_configs key = Inl KeyError"
  using assms by (simp add: getitem_def default_configs_def)

theorem unregistered_key_error_witness:
  "''melody'' \<notin> {''performance'', ''performance_with_dynamics'',
      ''density_conditioned_performance_with_dynamics'',
      ''pitch_conditioned_performance_with_dynamics'',
      ''multiconditioned_performance_with_dynamics''}
   \<and> getitem default_configs ''melody'' = (Inl KeyError :: pyerror + PerformanceRnnConfig)"
  using unregistered_key_error [of "''melody''"] by simp

lemma registry_hparams:
  assumes "default_configs key = Some c"
  shows "hparams c = \<lparr>batch_size = 64, rnn_layer_sizes = [512, 512, 512],
           dropout_keep_prob = 1.0, clip_norm = 3, learning_rate = 0.001\<rparr>"
  using assms by (auto simp: config_defs split: if_splits)

text \<open>
  C10, as the code has it. Every configuration of the registry has the hyperparameters
  batch_size 64, rnn_layer_sizes 512, 512, 512, dropout_keep_prob 1.0, clip_norm 3 and
  learning_rate 0.001, and two configurations of the registry differ only in their
  generator details, their encoder-decoder and the four performance fields: with these
  six fields of the first set to those of the second, the two are equal.
\<close>

theorem registry_same_hparams:
  assumes "default_configs k1 = Some c1" and "default_configs k2 = Some c2"
  shows "hparams c1 = \<lparr>batch_size = 64, rnn_layer_sizes = [512, 512, 512],
           dropout_keep_prob = 1.0, clip_norm = 3, learning_rate = 0.001\<rparr>
       \<and> c1\<lparr>details := details c2, encoder_decoder := encoder_decoder c2,
            num_velocity_bins := num_velocity_bins c2,
            density_bin_ranges := density_bin_ranges c2,
            density_window_size := density_window_size c2,
            pitch_histogram_window_size := pitch_histogram_window_size c2\<rparr> = c2"
proof -
  have h1: "hparams c1 = \<lparr>batch_size = 64, rnn_layer_sizes = [512, 512, 512],
           dropout_keep_prob = 1.0, clip_norm = 3, learning_rate = 0.001\<rparr>"
    using assms(1) by (rule registry_hparams)
  have h2: "hparams c2 = \<lparr>batch_size = 64, rnn_layer_sizes = [512, 512, 512],
           dropout_keep_prob = 1.0, clip_norm = 3, learning_rate = 0.001\<rparr>"
    using assms(2) by (rule registry_hparams)
  from h1 h2 have "hparams c1 = hparams c2" by simp
  then have "c1\<lparr>details := details c2, encoder_decoder := encoder_decoder c2,
            num_velocity_bins := num_velocity_bins c2,
            density_bin_ranges := density_bin_ranges c2,
            density_window_size := density_window_size c2,
            pitch_histogram_window_size := pitch_histogram_window_size c2\<rparr> = c2"
    by (cases c1, cases c2) simp
  with h1 show ?thesis by simp
qed

theorem registry_same_hparams_witness:
  "default_configs ''performance''
     = Some \<lparr>details = \<lparr>id' = ''performance'', description = ''Performance RNN''\<rparr>,
             encoder_decoder =
               OneHotEventSequenceEncoderDecoder (PerformanceOneHotEncoding None),
             hparams = \<lparr>batch_size = 64, rnn_layer_sizes = [512, 512, 512],
               dropout_keep_prob = 1.0, clip_norm = 3, learning_rate = 0.001\<rparr>,
             num_velocity_bins = 0, density_bin_ranges = None,
             density_window_size = Some 3.0, pitch_histogram_window_size = None\<rparr>
   \<and> default_configs ''pitch_conditioned_performance_with_dynamics''
     = Some \<lparr>details = \<lparr>id' = ''pitch_conditioned_performance_with_dynamics'',
               description = ''Pitch-histogram-conditioned Performance RNN''\<rparr>,
             encoder_decoder =
               ConditionalEventSequenceEncoderDecoder PitchHistogramEncoderDecoder
                 (OneHotEventSequenceEncoderDecoder (PerformanceOneHotEncoding (Some 32))),
             hparams = \<lparr>batch_size = 64, rnn_layer_sizes = [512, 512, 512],
               dropout_keep_prob = 1.0, clip_norm = 3, learning_rate = 0.001\<rparr>,
             num_velocity_bins = 32, density_bin_ranges = None,
             density_window_size = Some 3.0, pitch_histogram_window_size = Some 5.0\<rparr>
   \<and> hparams \<lparr>details = \<lparr>id' = ''performance'', description = ''Performance RNN''\<rparr>,
             encoder_decoder =
               OneHotEventSequenceEncoderDecoder (PerformanceOneHotEncoding None),
             hparams = \<lparr>batch_size = 64, rnn_layer_sizes = [512, 512, 512],
               dropout_keep_prob = 1.0, clip_norm = 3, learning_rate = 0.001\<rparr>,
             num_velocity_bins = 0, density_bin_ranges = None,
             density_window_size = Some 3.0, pitch_histogram_window_size = None\<rparr>
     = \<lparr>batch_size = 64, rnn_layer_sizes = [512, 512, 512],
        dropout_keep_prob = 1.0, clip_norm = 3, learning_rate = 0.001\<rparr>"
proof -
  have e1: "default_configs ''performance''
     = Some \<lparr>details = \<lparr>id' = ''performance'', description = ''Performance RNN''\<rparr>,
             encoder_decoder =
               OneHotEventSequenceEncoderDecoder (PerformanceOneHotEncoding None),
             hparams = \<lparr>batch_size = 64, rnn_layer_sizes = [512, 512, 512],
               dropout_keep_prob = 1.0, clip_norm = 3, learning_rate = 0.001\<rparr>,
             num_velocity_bins = 0, density_bin_ranges = None,
             density_window_size = Some 3.0, pitch_histogram_window_size = None\<rparr>"
    by (simp add: config_defs)
  have e2: "default_configs ''pitch_conditioned_performance_with_dynamics''
     = Some \<lparr>details = \<lparr>id' = ''pitch_conditioned_performance_with_dynamics'',
               description = ''Pitch-histogram-conditioned Performance RNN''\<rparr>,
             encoder_decoder =
               ConditionalEventSequenceEncoderDecoder PitchHistogramEncoderDecoder
                 (OneHotEventSequenceEncoderDecoder (PerformanceOneHotEncoding (Some 32))),
             hparams = \<lparr>batch_size = 64, rnn_layer_sizes = [512, 512, 512],
               dropout_keep_prob = 1.0, clip_norm = 3, learning_rate = 0.001\<rparr>,
             num_velocity_bins = 32, density_bin_ranges = None,
             density_window_size = Some 3.0, pitch_histogram_window_size = Some 5.0\<rparr>"
    by (simp add: config_defs)
  from registry_same_hparams [OF e1 e2] e1 e2 show ?thesis by simp
qed

text \<open>
  C10 as stated fails in its last part: the entries \<open>performance\<close> and
  \<open>performance_with_dynamics\<close> also differ in their generator details.
\<close>

theorem registry_details_differ:
  "map_option details (default_configs ''performance'')
     = Some \<lparr>id' = ''performance'', description = ''Performance RNN''\<rparr>
   \<and> map_option details (default_configs ''performance_with_dynamics'')
     = Some \<lparr>id' = ''performance_with_dynamics'',
              description = ''Performance RNN with dynamics''\<rparr>
   \<and> map_option details (default_configs ''performance'')
     \<noteq> map_option details (default_configs ''performance_with_dynamics'')"
  by (simp add: config_defs)

end
